theory Spec2Isabelle
  imports Complex_Main "HOL-Library.Sublist"
begin

section \<open>Python values and exceptions\<close>

text \<open>
  The values that flow through the program are the ones \<^verbatim>\<open>response.json()\<close> produces and
  the ones the searchers build from them: \<^verbatim>\<open>None\<close>, booleans, integers, floating-point
  numbers, strings, lists and dictionaries with string keys. A dictionary is an association
  list in insertion order. A character of a Python string is one \<^typ>\<open>char\<close>, so
  \<^const>\<open>length\<close> is Python's \<^verbatim>\<open>len\<close>. A floating-point number is the \<^typ>\<open>real\<close> it
  denotes; the program does no arithmetic on one except \<^verbatim>\<open>round\<close>, which the model takes
  as a parameter.
\<close>

datatype pyval =
    PNone
  | PBool bool
  | PInt int
  | PFloat real
  | PStr string
  | PList "pyval list"
  | PDict "(string \<times> pyval) list"

type_synonym pydict = "(string \<times> pyval) list"

datatype exn =
    ValueError string
  | TypeError
  | AttributeError
  | RequestException
  | JSONDecodeError

text \<open>\<^verbatim>\<open>d.get(key, default)\<close>\<close>

definition dict_get :: "pydict \<Rightarrow> string \<Rightarrow> pyval \<Rightarrow> pyval" where
  "dict_get d k dflt = (case map_of d k of None \<Rightarrow> dflt | Some v \<Rightarrow> v)"

text \<open>Truth value of an object in a condition (\<^verbatim>\<open>if url\<close>, \<^verbatim>\<open>x or y\<close>).\<close>

fun truthy :: "pyval \<Rightarrow> bool" where
  "truthy PNone = False"
| "truthy (PBool b) = b"
| "truthy (PInt n) = (n \<noteq> 0)"
| "truthy (PFloat x) = (x \<noteq> 0)"
| "truthy (PStr s) = (s \<noteq> [])"
| "truthy (PList xs) = (xs \<noteq> [])"
| "truthy (PDict d) = (d \<noteq> [])"

text \<open>
  Membership in a \<^verbatim>\<open>set\<close> hashes the value: lists and dictionaries raise \<^verbatim>\<open>TypeError\<close>.
  Hashable values are compared with \<^verbatim>\<open>==\<close>, under which a boolean equals the integer 0 or 1
  and a floating-point number equals the integer of the same value; \<open>py_key\<close> maps a value
  to the representative of its class.
\<close>

fun hashable :: "pyval \<Rightarrow> bool" where
  "hashable (PList xs) = False"
| "hashable (PDict d) = False"
| "hashable v = True"

fun py_key :: "pyval \<Rightarrow> pyval" where
  "py_key (PBool b) = PInt (if b then 1 else 0)"
| "py_key (PFloat x) = (if x = of_int \<lfloor>x\<rfloor> then PInt \<lfloor>x\<rfloor> else PFloat x)"
| "py_key v = v"

definition py_eq :: "pyval \<Rightarrow> pyval \<Rightarrow> bool" where
  "py_eq a b = (py_key a = py_key b)"

definition py_in :: "pyval \<Rightarrow> pyval set \<Rightarrow> bool" where
  "py_in v S = (\<exists>s\<in>S. py_eq s v)"

section \<open>Constants of \<^verbatim>\<open>config.py\<close>\<close>

definition TIMEOUT :: nat where "TIMEOUT = 10"
definition MAX_RESULTS_DEFAULT :: int where "MAX_RESULTS_DEFAULT = 5"
definition MAX_RESULTS_LIMIT :: int where "MAX_RESULTS_LIMIT = 50"
definition REQUEST_RETRIES :: nat where "REQUEST_RETRIES = 2"
definition MAX_THREADS :: nat where "MAX_THREADS = 5"
definition MIN_KEYWORD_LENGTH :: nat where "MIN_KEYWORD_LENGTH = 2"
definition MAX_KEYWORD_LENGTH :: nat where "MAX_KEYWORD_LENGTH = 200"

definition AVAILABLE_SOURCES :: "string list" where
  "AVAILABLE_SOURCES = [''wikipedia'', ''stackoverflow'', ''github'', ''googlenews'', ''hackernews'']"

section \<open>Operations on Python values used by the searchers\<close>

text \<open>Sequencing of steps that may raise: the first exception ends the computation.\<close>

definition ebind :: "exn + 'a \<Rightarrow> ('a \<Rightarrow> exn + 'b) \<Rightarrow> exn + 'b" where
  "ebind m f = (case m of Inl e \<Rightarrow> Inl e | Inr v \<Rightarrow> f v)"

text \<open>\<^verbatim>\<open>x.get(key, default)\<close> on an arbitrary value: only a dictionary has the method.\<close>

fun py_get :: "pyval \<Rightarrow> string \<Rightarrow> pyval \<Rightarrow> exn + pyval" where
  "py_get (PDict d) k dflt = Inr (dict_get d k dflt)"
| "py_get v k dflt = Inl AttributeError"

text \<open>
  \<^verbatim>\<open>for item in x\<close>: a list yields its elements, a dictionary its keys, a string its
  characters; the other values are not iterable.
\<close>

fun py_iter :: "pyval \<Rightarrow> exn + pyval list" where
  "py_iter (PList xs) = Inr xs"
| "py_iter (PDict d) = Inr (map (\<lambda>kv. PStr (fst kv)) d)"
| "py_iter (PStr s) = Inr (map (\<lambda>c. PStr [c]) s)"
| "py_iter v = Inl TypeError"

text \<open>
  \<^verbatim>\<open>s.replace(old, new)\<close> on strings: every occurrence of \<open>old\<close>, left to right, without
  overlap; an empty \<open>old\<close> matches before every character and at the end.
\<close>

function replace_str :: "string \<Rightarrow> string \<Rightarrow> string \<Rightarrow> string" where
  "replace_str old new s =
     (if old = [] then new @ concat (map (\<lambda>c. c # new) s)
      else if s = [] then []
      else if take (length old) s = old then new @ replace_str old new (drop (length old) s)
      else hd s # replace_str old new (tl s))"
  by pat_completeness auto
termination
  by (relation "measure (\<lambda>(old, new, s). length s)") auto

declare replace_str.simps [simp del]

text \<open>The method on an arbitrary value: only a string has it.\<close>

fun py_replace :: "pyval \<Rightarrow> string \<Rightarrow> string \<Rightarrow> exn + string" where
  "py_replace (PStr s) old new = Inr (replace_str old new s)"
| "py_replace v old new = Inl AttributeError"

text \<open>\<^verbatim>\<open>sep.join(row)\<close> for a list of values: every element has to be a string.\<close>

fun join_strs :: "string \<Rightarrow> string list \<Rightarrow> string" where
  "join_strs sep [] = []"
| "join_strs sep [x] = x"
| "join_strs sep (x # y # ys) = x @ sep @ join_strs sep (y # ys)"

fun as_strs :: "pyval list \<Rightarrow> exn + string list" where
  "as_strs [] = Inr []"
| "as_strs (PStr s # vs) = ebind (as_strs vs) (\<lambda>ss. Inr (s # ss))"
| "as_strs (v # vs) = Inl TypeError"

definition py_join :: "string \<Rightarrow> pyval list \<Rightarrow> exn + string" where
  "py_join sep row = ebind (as_strs row) (\<lambda>ss. Inr (join_strs sep ss))"

text \<open>\<^verbatim>\<open>xs[:k]\<close>: a negative bound counts from the end.\<close>

definition slice_to :: "'a list \<Rightarrow> int \<Rightarrow> 'a list" where
  "slice_to xs k = (if 0 \<le> k then take (nat k) xs else take (length xs - nat (- k)) xs)"

section \<open>The searchers\<close>

subsection \<open>\<^verbatim>\<open>BaseSearcher\<close>\<close>

record searcher =
  keyword :: string
  max_results :: int
  results :: "pydict list"
  source_name :: string

definition base_init :: "string \<Rightarrow> int \<Rightarrow> searcher" where
  "base_init kw requested =
     \<lparr>keyword = kw, max_results = min requested MAX_RESULTS_LIMIT, results = [],
      source_name = ''base''\<rparr>"

text \<open>
  The outside world of one searcher invocation. \<^verbatim>\<open>requests.get\<close> followed by
  \<^verbatim>\<open>raise_for_status\<close> either raises or hands back a response; \<open>net n\<close> is the outcome of
  the GET sent in iteration \<open>n\<close> of the request loop. Of a response the searchers read the
  decoded body (\<^verbatim>\<open>response.json()\<close>, which may raise) or, for the HTML page, the
  \<^verbatim>\<open>article\<close> elements that \<^verbatim>\<open>find_all('article', limit=n)\<close> returns. Of an article they
  read the text of its first \<^verbatim>\<open>h3\<close>, the \<^verbatim>\<open>href\<close> of its first \<^verbatim>\<open>a\<close> and the text of its
  first \<^verbatim>\<open>p\<close>, each of which may be missing.
\<close>

datatype article = Article (h3_text: "string option") (a_href: "string option option")
  (p_text: "string option")

record response =
  json :: "exn + pyval"
  find_all_article :: "int \<Rightarrow> article list"

datatype attempt = Failed | Responded response

datatype event = HttpGet | Sleep nat

text \<open>
  \<^verbatim>\<open>_safe_request\<close>: the loop \<^verbatim>\<open>for attempt in range(config.REQUEST_RETRIES)\<close>. The result is
  what the method returns or raises, together with the GETs sent and the pauses taken.
\<close>

fun request_loop :: "nat list \<Rightarrow> (nat \<Rightarrow> attempt) \<Rightarrow> event list
    \<Rightarrow> (exn + response option) \<times> event list" where
  "request_loop [] net trace = (Inr None, trace)"
| "request_loop (n # rest) net trace =
     (case net n of
        Responded r \<Rightarrow> (Inr (Some r), trace @ [HttpGet])
      | Failed \<Rightarrow>
          if int n = int REQUEST_RETRIES - 1 then (Inl RequestException, trace @ [HttpGet])
          else request_loop rest net (trace @ [HttpGet, Sleep 1]))"

definition safe_request :: "(nat \<Rightarrow> attempt) \<Rightarrow> (exn + response option) \<times> event list" where
  "safe_request net = request_loop [0..<REQUEST_RETRIES] net []"

text \<open>Reading an attribute of what \<^verbatim>\<open>_safe_request\<close> returned; \<^verbatim>\<open>None\<close> has none.\<close>

definition fetch :: "(nat \<Rightarrow> attempt) \<Rightarrow> exn + response" where
  "fetch net =
     ebind (fst (safe_request net))
       (\<lambda>resp. case resp of None \<Rightarrow> Inl AttributeError | Some r \<Rightarrow> Inr r)"

text \<open>
  Two library functions are parameters of the model: \<open>now n\<close> is the text of
  \<^verbatim>\<open>datetime.now().isoformat()\<close> when the record with index \<open>n\<close> of \<^verbatim>\<open>self.results\<close> is
  built, and \<open>str_of\<close> is the built-in \<^verbatim>\<open>str\<close> that an f-string applies to a value.
\<close>

record env =
  now :: "nat \<Rightarrow> string"
  str_of :: "pyval \<Rightarrow> string"

text \<open>
  The loop \<^verbatim>\<open>for item in ...: self.results.append({...})\<close> of the four JSON searchers:
  \<open>mk\<close> builds the record of one item or raises; an exception leaves the loop with the
  records appended so far still in \<^verbatim>\<open>self.results\<close>.
\<close>

fun append_items :: "(nat \<Rightarrow> pyval \<Rightarrow> exn + pydict) \<Rightarrow> pyval list \<Rightarrow> pydict list
    \<Rightarrow> exn option \<times> pydict list" where
  "append_items mk [] res = (None, res)"
| "append_items mk (item # rest) res =
     (case mk (length res) item of
        Inl e \<Rightarrow> (Some e, res)
      | Inr entry \<Rightarrow> append_items mk rest (res @ [entry]))"

text \<open>
  The \<^verbatim>\<open>try\<close> block of a JSON searcher: it yields the exception caught by
  \<^verbatim>\<open>except Exception\<close>, if any, and \<^verbatim>\<open>self.results\<close> as the block left it.
\<close>

definition try_items :: "(exn + pyval list) \<Rightarrow> (nat \<Rightarrow> pyval \<Rightarrow> exn + pydict) \<Rightarrow> pydict list
    \<Rightarrow> exn option \<times> pydict list" where
  "try_items items mk res =
     (case items of Inl e \<Rightarrow> (Some e, res) | Inr its \<Rightarrow> append_items mk its res)"

text \<open>
  What follows the \<^verbatim>\<open>try\<close> statement in every \<^verbatim>\<open>search\<close> method: the handler only prints,
  then \<^verbatim>\<open>return self.results[:self.max_results]\<close>. The result is the returned list, the
  searcher with its updated \<^verbatim>\<open>results\<close>, and the exception that was caught, if any.
\<close>

definition finish_search :: "exn option \<times> pydict list \<Rightarrow> searcher
    \<Rightarrow> pydict list \<times> searcher \<times> exn option" where
  "finish_search body self =
     (let self' = self\<lparr>results := snd body\<rparr>
      in (slice_to (results self') (max_results self'), self', fst body))"

subsection \<open>\<^verbatim>\<open>WikipediaSearcher\<close>\<close>

definition wikipedia_init :: "string \<Rightarrow> int \<Rightarrow> searcher" where
  "wikipedia_init kw requested = (base_init kw requested)\<lparr>source_name := ''wikipedia''\<rparr>"

definition searchmatch_open :: string where
  "searchmatch_open = ''<span class='' @ [CHR 0x27] @ ''searchmatch'' @ [CHR 0x27] @ ''>''"

definition wikipedia_entry :: "env \<Rightarrow> searcher \<Rightarrow> nat \<Rightarrow> pyval \<Rightarrow> exn + pydict" where
  "wikipedia_entry ev self n item =
     ebind (py_get item ''title'' (PStr '''')) (\<lambda>title.
     ebind (py_get item ''snippet'' (PStr '''')) (\<lambda>snippet.
     ebind (py_replace snippet searchmatch_open '''') (\<lambda>snippet1.
     ebind (py_replace title '' '' ''_'') (\<lambda>page.
       Inr [(''source'', PStr (source_name self)),
            (''title'', title),
            (''description'', PStr (replace_str ''</span>'' '''' snippet1)),
            (''url'', PStr (''https://en.wikipedia.org/wiki/'' @ page)),
            (''timestamp'', PStr (now ev n))]))))"

definition wikipedia_items :: "(nat \<Rightarrow> attempt) \<Rightarrow> exn + pyval list" where
  "wikipedia_items net =
     ebind (fetch net) (\<lambda>response.
     ebind (json response) (\<lambda>data.
     ebind (py_get data ''query'' (PDict [])) (\<lambda>query.
     ebind (py_get query ''search'' (PList [])) py_iter)))"

definition wikipedia_search :: "env \<Rightarrow> (nat \<Rightarrow> attempt) \<Rightarrow> searcher
    \<Rightarrow> pydict list \<times> searcher \<times> exn option" where
  "wikipedia_search ev net self =
     finish_search (try_items (wikipedia_items net) (wikipedia_entry ev self) (results self)) self"

subsection \<open>\<^verbatim>\<open>GitHubSearcher\<close>\<close>

definition github_init :: "string \<Rightarrow> int \<Rightarrow> searcher" where
  "github_init kw requested = (base_init kw requested)\<lparr>source_name := ''github''\<rparr>"

definition github_entry :: "env \<Rightarrow> searcher \<Rightarrow> nat \<Rightarrow> pyval \<Rightarrow> exn + pydict" where
  "github_entry ev self n item =
     ebind (py_get item ''name'' (PStr '''')) (\<lambda>title.
     ebind (py_get item ''description'' (PStr ''No description provided'')) (\<lambda>description.
     ebind (py_get item ''html_url'' (PStr '''')) (\<lambda>url.
       Inr [(''source'', PStr (source_name self)),
            (''title'', title),
            (''description'', description),
            (''url'', url),
            (''timestamp'', PStr (now ev n))])))"

definition github_items :: "(nat \<Rightarrow> attempt) \<Rightarrow> exn + pyval list" where
  "github_items net =
     ebind (fetch net) (\<lambda>response.
     ebind (json response) (\<lambda>data.
     ebind (py_get data ''items'' (PList [])) py_iter))"

definition github_search :: "env \<Rightarrow> (nat \<Rightarrow> attempt) \<Rightarrow> searcher
    \<Rightarrow> pydict list \<times> searcher \<times> exn option" where
  "github_search ev net self =
     finish_search (try_items (github_items net) (github_entry ev self) (results self)) self"

subsection \<open>\<^verbatim>\<open>StackOverflowSearcher\<close>\<close>

definition stackoverflow_init :: "string \<Rightarrow> int \<Rightarrow> searcher" where
  "stackoverflow_init kw requested =
     (base_init kw requested)\<lparr>source_name := ''stackoverflow''\<rparr>"

definition stackoverflow_entry :: "env \<Rightarrow> searcher \<Rightarrow> nat \<Rightarrow> pyval \<Rightarrow> exn + pydict" where
  "stackoverflow_entry ev self n item =
     ebind (py_get item ''title'' (PStr '''')) (\<lambda>title.
     ebind (py_replace title ''&quot;'' [CHR 0x22]) (\<lambda>title1.
     ebind (py_get item ''score'' (PInt 0)) (\<lambda>score.
     ebind (py_get item ''tags'' (PList [])) (\<lambda>tags.
     ebind (py_iter tags) (\<lambda>tag_list.
     ebind (py_join '', '' tag_list) (\<lambda>joined.
     ebind (py_get item ''link'' (PStr '''')) (\<lambda>url.
       Inr [(''source'', PStr (source_name self)),
            (''title'', PStr (replace_str ''&amp;'' ''&'' title1)),
            (''description'', PStr (''Score: '' @ str_of ev score @ '', Tags: '' @ joined)),
            (''url'', url),
            (''timestamp'', PStr (now ev n))])))))))"

definition stackoverflow_items :: "(nat \<Rightarrow> attempt) \<Rightarrow> exn + pyval list" where
  "stackoverflow_items net =
     ebind (fetch net) (\<lambda>response.
     ebind (json response) (\<lambda>data.
     ebind (py_get data ''items'' (PList [])) py_iter))"

definition stackoverflow_search :: "env \<Rightarrow> (nat \<Rightarrow> attempt) \<Rightarrow> searcher
    \<Rightarrow> pydict list \<times> searcher \<times> exn option" where
  "stackoverflow_search ev net self =
     finish_search
       (try_items (stackoverflow_items net) (stackoverflow_entry ev self) (results self)) self"

subsection \<open>\<^verbatim>\<open>HackerNewsSearcher\<close>\<close>

definition hackernews_init :: "string \<Rightarrow> int \<Rightarrow> searcher" where
  "hackernews_init kw requested = (base_init kw requested)\<lparr>source_name := ''hackernews''\<rparr>"

definition hackernews_entry :: "env \<Rightarrow> searcher \<Rightarrow> nat \<Rightarrow> pyval \<Rightarrow> exn + pydict" where
  "hackernews_entry ev self n item =
     ebind (py_get item ''title'' (PStr '''')) (\<lambda>title.
     ebind (py_get item ''points'' (PInt 0)) (\<lambda>points.
     ebind (py_get item ''num_comments'' (PInt 0)) (\<lambda>comments.
     ebind (py_get item ''url'' (PStr '''')) (\<lambda>url.
     ebind (if truthy url then Inr url
            else ebind (py_get item ''objectID'' (PStr '''')) (\<lambda>oid.
                   Inr (PStr (''https://news.ycombinator.com/item?id='' @ str_of ev oid))))
       (\<lambda>url1.
       Inr [(''source'', PStr (source_name self)),
            (''title'', title),
            (''description'',
               PStr (''Points: '' @ str_of ev points @ '', Comments: '' @ str_of ev comments)),
            (''url'', url1),
            (''timestamp'', PStr (now ev n))])))))"

definition hackernews_items :: "(nat \<Rightarrow> attempt) \<Rightarrow> exn + pyval list" where
  "hackernews_items net =
     ebind (fetch net) (\<lambda>response.
     ebind (json response) (\<lambda>data.
     ebind (py_get data ''hits'' (PList [])) py_iter))"

definition hackernews_search :: "env \<Rightarrow> (nat \<Rightarrow> attempt) \<Rightarrow> searcher
    \<Rightarrow> pydict list \<times> searcher \<times> exn option" where
  "hackernews_search ev net self =
     finish_search
       (try_items (hackernews_items net) (hackernews_entry ev self) (results self)) self"

subsection \<open>\<^verbatim>\<open>GoogleNewsSearcher\<close>\<close>

definition googlenews_init :: "string \<Rightarrow> int \<Rightarrow> searcher" where
  "googlenews_init kw requested = (base_init kw requested)\<lparr>source_name := ''googlenews''\<rparr>"

text \<open>
  The loop over the articles: an article with both an \<^verbatim>\<open>h3\<close> and an \<^verbatim>\<open>a\<close> element is
  appended, any other is passed over. Reading the texts does not raise, so the inner
  \<^verbatim>\<open>except: continue\<close> has nothing to catch.
\<close>

fun append_articles :: "env \<Rightarrow> searcher \<Rightarrow> article list \<Rightarrow> pydict list \<Rightarrow> pydict list" where
  "append_articles ev self [] res = res"
| "append_articles ev self (Article (Some title) (Some link) desc # rest) res =
     append_articles ev self rest
       (res @ [[(''source'', PStr (source_name self)),
                (''title'', PStr title),
                (''description'', PStr (case desc of None \<Rightarrow> ''News article'' | Some d \<Rightarrow> d)),
                (''url'', PStr (case link of None \<Rightarrow> '''' | Some h \<Rightarrow> h)),
                (''timestamp'', PStr (now ev (length res)))]])"
| "append_articles ev self (other # rest) res = append_articles ev self rest res"

definition googlenews_search :: "env \<Rightarrow> (nat \<Rightarrow> attempt) \<Rightarrow> searcher
    \<Rightarrow> pydict list \<times> searcher \<times> exn option" where
  "googlenews_search ev net self =
     finish_search
       (case fetch net of
          Inl e \<Rightarrow> (Some e, results self)
        | Inr response \<Rightarrow>
            (None, append_articles ev self (find_all_article response (max_results self))
                     (results self)))
       self"

section \<open>Deduplication pass of \<^verbatim>\<open>WebIntelligenceGatherer.search\<close>\<close>

text \<open>\<^verbatim>\<open>url = result.get('url', '')\<close>\<close>

definition url_of :: "pydict \<Rightarrow> pyval" where
  "url_of result = dict_get result ''url'' (PStr '''')"

text \<open>
  The loop over \<^verbatim>\<open>self.all_results\<close>, with \<^verbatim>\<open>unique_results\<close> and \<^verbatim>\<open>seen_urls\<close> as
  accumulators. The condition \<^verbatim>\<open>url and url not in seen_urls\<close> evaluates its second operand
  only when the first is true.
\<close>

fun dedup_loop :: "pydict list \<Rightarrow> pydict list \<Rightarrow> pyval set \<Rightarrow> exn + pydict list" where
  "dedup_loop [] unique_results seen_urls = Inr unique_results"
| "dedup_loop (result # rest) unique_results seen_urls =
     (let url = url_of result in
      if \<not> truthy url then dedup_loop rest unique_results seen_urls
      else if \<not> hashable url then Inl TypeError
      else if py_in url seen_urls then dedup_loop rest unique_results seen_urls
      else dedup_loop rest (unique_results @ [result]) (insert url seen_urls))"

definition deduplicate :: "pydict list \<Rightarrow> exn + pydict list" where
  "deduplicate all_results = dedup_loop all_results [] {}"

section \<open>\<^verbatim>\<open>ReportGenerator\<close>\<close>

text \<open>
  \<^verbatim>\<open>to_json\<close> builds the report dictionary and hands it to \<^verbatim>\<open>json.dumps\<close>. The serialiser,
  the built-in \<^verbatim>\<open>round\<close> and the text of \<^verbatim>\<open>datetime.now().isoformat()\<close> are parameters.
\<close>

definition report :: "(real \<Rightarrow> int \<Rightarrow> real) \<Rightarrow> string \<Rightarrow> pydict list \<Rightarrow> string \<Rightarrow> real
    \<Rightarrow> string list \<Rightarrow> pyval" where
  "report round_nd timestamp all_results kw search_time srcs =
     PDict [(''search'',
               PDict [(''keyword'', PStr kw),
                      (''timestamp'', PStr timestamp),
                      (''sources'', PList (map PStr srcs)),
                      (''total_results'', PInt (int (length all_results))),
                      (''search_time_seconds'', PFloat (round_nd search_time 2))]),
            (''results'', PList (map PDict all_results))]"

definition to_json :: "(pyval \<Rightarrow> string) \<Rightarrow> (real \<Rightarrow> int \<Rightarrow> real) \<Rightarrow> string \<Rightarrow> pydict list
    \<Rightarrow> string \<Rightarrow> real \<Rightarrow> string list \<Rightarrow> string" where
  "to_json dumps round_nd timestamp all_results kw search_time srcs =
     dumps (report round_nd timestamp all_results kw search_time srcs)"

text \<open>
  \<^verbatim>\<open>to_csv\<close>: one row is the list of five fields joined by commas. \<^verbatim>\<open>replace\<close> needs a
  string for the title and the description, \<^verbatim>\<open>join\<close> needs one for the other three.
\<close>

definition dquote :: char where
  "dquote = CHR 0x22"

definition csv_row :: "pydict \<Rightarrow> exn + string" where
  "csv_row result =
     ebind (py_replace (dict_get result ''title'' (PStr '''')) [dquote] [dquote, dquote])
       (\<lambda>title.
     ebind (py_replace (dict_get result ''description'' (PStr '''')) [dquote] [dquote, dquote])
       (\<lambda>description.
     py_join '',''
       [dict_get result ''source'' (PStr ''''),
        PStr ([dquote] @ title @ [dquote]),
        PStr ([dquote] @ description @ [dquote]),
        dict_get result ''url'' (PStr ''''),
        dict_get result ''timestamp'' (PStr '''')]))"

fun csv_loop :: "pydict list \<Rightarrow> string \<Rightarrow> exn + string" where
  "csv_loop [] output = Inr output"
| "csv_loop (result # rest) output =
     ebind (csv_row result) (\<lambda>line. csv_loop rest (output @ line @ [CHR 0x0A]))"

definition csv_header :: string where
  "csv_header = ''source,title,description,url,timestamp'' @ [CHR 0x0A]"

definition to_csv :: "pydict list \<Rightarrow> exn + string" where
  "to_csv all_results =
     (if all_results = [] then Inr ''No results found'' else csv_loop all_results csv_header)"

section \<open>\<^verbatim>\<open>WebIntelligenceGatherer\<close>\<close>

record gatherer =
  g_keyword :: string
  sources :: "string list"
  g_max_results :: int
  all_results :: "pydict list"
  search_time :: real

text \<open>
  \<^verbatim>\<open>__init__\<close>: the validation raises \<^verbatim>\<open>ValueError\<close>; the text of the last message depends
  on how a set prints and is cut after the colon.
\<close>

definition gatherer_init :: "string \<Rightarrow> string list \<Rightarrow> int \<Rightarrow> exn + gatherer" where
  "gatherer_init kw srcs requested =
     (if kw = [] \<or> length kw < MIN_KEYWORD_LENGTH
        then Inl (ValueError ''Keyword must be at least 2 characters'')
      else if length kw > MAX_KEYWORD_LENGTH
        then Inl (ValueError ''Keyword must be less than 200 characters'')
      else if set srcs - set AVAILABLE_SOURCES \<noteq> {}
        then Inl (ValueError ''Invalid sources:'')
      else Inr \<lparr>g_keyword = kw, sources = srcs, g_max_results = requested,
                all_results = [], search_time = 0\<rparr>)"

datatype adapter = Wikipedia | GitHub | StackOverflow | HackerNews | GoogleNews

fun adapter_init :: "adapter \<Rightarrow> string \<Rightarrow> int \<Rightarrow> searcher" where
  "adapter_init Wikipedia = wikipedia_init"
| "adapter_init GitHub = github_init"
| "adapter_init StackOverflow = stackoverflow_init"
| "adapter_init HackerNews = hackernews_init"
| "adapter_init GoogleNews = googlenews_init"

fun adapter_search :: "adapter \<Rightarrow> env \<Rightarrow> (nat \<Rightarrow> attempt) \<Rightarrow> searcher
    \<Rightarrow> pydict list \<times> searcher \<times> exn option" where
  "adapter_search Wikipedia = wikipedia_search"
| "adapter_search GitHub = github_search"
| "adapter_search StackOverflow = stackoverflow_search"
| "adapter_search HackerNews = hackernews_search"
| "adapter_search GoogleNews = googlenews_search"

text \<open>\<^verbatim>\<open>_get_searcher\<close>: the class registered for the source, instantiated, or \<^verbatim>\<open>None\<close>.\<close>

definition searchers :: "(string \<times> adapter) list" where
  "searchers = [(''wikipedia'', Wikipedia), (''github'', GitHub),
                (''stackoverflow'', StackOverflow), (''hackernews'', HackerNews),
                (''googlenews'', GoogleNews)]"

definition get_searcher :: "gatherer \<Rightarrow> string \<Rightarrow> (adapter \<times> searcher) option" where
  "get_searcher self source =
     (case map_of searchers source of
        None \<Rightarrow> None
      | Some cls \<Rightarrow> Some (cls, adapter_init cls (g_keyword self) (g_max_results self)))"

text \<open>
  The submission loop of \<^verbatim>\<open>search\<close>: one \<^verbatim>\<open>executor.submit(searcher.search)\<close> for every
  element of \<^verbatim>\<open>self.sources\<close> that has a searcher. The futures are kept in submission order.
\<close>

fun submit_loop :: "gatherer \<Rightarrow> string list \<Rightarrow> (string \<times> adapter \<times> searcher) list
    \<Rightarrow> (string \<times> adapter \<times> searcher) list" where
  "submit_loop self [] futures = futures"
| "submit_loop self (source # rest) futures =
     (case get_searcher self source of
        None \<Rightarrow> submit_loop self rest futures
      | Some s \<Rightarrow> submit_loop self rest (futures @ [(source, s)]))"

definition submitted :: "gatherer \<Rightarrow> (string \<times> adapter \<times> searcher) list" where
  "submitted self = submit_loop self (sources self) []"

text \<open>
  The collection loop over \<^verbatim>\<open>as_completed(futures)\<close>: \<^verbatim>\<open>future.result()\<close> is the list the
  searcher returned or the exception it raised; the latter is printed and passed over.
\<close>

fun collect_loop :: "(exn + pydict list) list \<Rightarrow> pydict list \<Rightarrow> pydict list" where
  "collect_loop [] buffer = buffer"
| "collect_loop (Inr res # rest) buffer = collect_loop rest (buffer @ res)"
| "collect_loop (Inl e # rest) buffer = collect_loop rest buffer"

text \<open>
  The outside world of one call of \<^verbatim>\<open>search\<close>: the library functions of the searchers,
  the network as seen by the future with a given index, the order in which the futures
  complete (a permutation of their indices, each future being yielded once), and the two
  readings of \<^verbatim>\<open>time.time()\<close>.
\<close>

record world =
  library :: env
  net_of :: "nat \<Rightarrow> nat \<Rightarrow> attempt"
  completion :: "nat list"
  start_time :: real
  end_time :: real

definition run_futures :: "world \<Rightarrow> (string \<times> adapter \<times> searcher) list
    \<Rightarrow> (exn + pydict list) list" where
  "run_futures w futures =
     map (\<lambda>i. case futures ! i of
                 (source, cls, s) \<Rightarrow> Inr (fst (adapter_search cls (library w) (net_of w i) s)))
       [0..<length futures]"

text \<open>
  \<^verbatim>\<open>search\<close>: the result is the returned list or the exception raised, and the gatherer as
  the call leaves it.
\<close>

definition search :: "world \<Rightarrow> gatherer \<Rightarrow> (exn + pydict list) \<times> gatherer" where
  "search w self =
     (let outcomes = run_futures w (submitted self);
          completed = map (\<lambda>i. outcomes ! i) (filter (\<lambda>i. i < length outcomes) (completion w));
          buffer = collect_loop completed (all_results self);
          self1 = self\<lparr>all_results := buffer, search_time := end_time w - start_time w\<rparr>
      in case deduplicate buffer of
           Inl e \<Rightarrow> (Inl e, self1)
         | Inr unique_results \<Rightarrow> (Inr unique_results, self1\<lparr>all_results := unique_results\<rparr>))"

section \<open>Notions used in the statements\<close>

text \<open>
  A value that is a string, as the fields of a normalized result record are.
\<close>

fun is_str :: "pyval \<Rightarrow> bool" where
  "is_str (PStr s) = True"
| "is_str v = False"

text \<open>
  Position \<open>i\<close> of \<open>xs\<close> holds the first entry with its URL: the URL is true in a
  condition, is not in \<open>seen\<close>, and no earlier entry has an equal one.
\<close>

definition first_seen :: "pyval set \<Rightarrow> pydict list \<Rightarrow> nat \<Rightarrow> bool" where
  "first_seen seen xs i =
     (truthy (url_of (xs ! i)) \<and> \<not> py_in (url_of (xs ! i)) seen \<and>
      (\<forall>j<i. \<not> py_eq (url_of (xs ! j)) (url_of (xs ! i))))"

text \<open>
  The keys of a normalized result record. A record is a text record when each of these
  fields, where present, holds a string; \<open>field_text\<close> reads such a field, with the empty
  string for a missing key as \<^verbatim>\<open>result.get(key, '')\<close> does.
\<close>

definition schema_keys :: "string list" where
  "schema_keys = [''source'', ''title'', ''description'', ''url'', ''timestamp'']"

definition text_record :: "pydict \<Rightarrow> bool" where
  "text_record r = list_all (\<lambda>k. is_str (dict_get r k (PStr ''''))) schema_keys"

fun text_of :: "pyval \<Rightarrow> string" where
  "text_of (PStr s) = s"
| "text_of v = []"

definition field_text :: "pydict \<Rightarrow> string \<Rightarrow> string" where
  "field_text r k = text_of (dict_get r k (PStr ''''))"

text \<open>
  The delimited form in the words of its description: a quoted field stands between double
  quotes with every double quote inside it doubled; a row is the source, the quoted title,
  the quoted description, the URL and the timestamp, separated by commas and ended by a
  newline.
\<close>

definition quoted :: "string \<Rightarrow> string" where
  "quoted s = [dquote] @ concat (map (\<lambda>c. if c = dquote then [dquote, dquote] else [c]) s) @ [dquote]"

definition csv_line :: "pydict \<Rightarrow> string" where
  "csv_line r =
     field_text r ''source'' @ '','' @ quoted (field_text r ''title'') @ '','' @
     quoted (field_text r ''description'') @ '','' @ field_text r ''url'' @ '','' @
     field_text r ''timestamp'' @ [CHR 0x0A]"

text \<open>
  What the searchers' loops amount to on a fresh searcher. \<open>outcomes\<close> lists, for each item
  in turn, the record built from it or the exception it raises, the \<open>i\<close>-th item being
  the \<open>i\<close>-th record; \<open>built_before\<close> is the records of the items before the first one
  that raises, \<open>first_failure\<close> the exception of that item, if there is one.
\<close>

definition outcomes :: "(nat \<Rightarrow> pyval \<Rightarrow> exn + pydict) \<Rightarrow> pyval list \<Rightarrow> (exn + pydict) list" where
  "outcomes mk its = map (\<lambda>i. mk i (its ! i)) [0..<length its]"







section \<open>Sample inputs\<close>

text \<open>
  Concrete searchers' surroundings, replies and records, on which the statements below are
  evaluated.
\<close>

definition sample_env :: env where
  "sample_env = \<lparr>now = (\<lambda>n. ''2024-01-01T00:00:00''), str_of = (\<lambda>v. ''?'')\<rparr>"

definition sample_github_reply :: response where
  "sample_github_reply =
     \<lparr>json = Inr (PDict [(''items'',
                PList [PDict [(''name'', PStr ''one''), (''html_url'', PStr ''http://a'')],
                       PDict [(''name'', PStr ''two''), (''html_url'', PStr ''http://a'')]])]),
      find_all_article = (\<lambda>n. [])\<rparr>"

definition sample_world :: world where
  "sample_world =
     \<lparr>library = sample_env, net_of = (\<lambda>i n. Responded sample_github_reply),
      completion = [0], start_time = 0, end_time = 1\<rparr>"

definition sample_gatherer :: gatherer where
  "sample_gatherer =
     \<lparr>g_keyword = ''ab'', sources = [''github''], g_max_results = 5, all_results = [],
      search_time = 0\<rparr>"

definition sample_entry :: pydict where
  "sample_entry =
     [(''source'', PStr ''github''), (''title'', PStr ''one''),
      (''description'', PStr ''No description provided''), (''url'', PStr ''http://a''),
      (''timestamp'', PStr ''2024-01-01T00:00:00'')]"

definition dup_gatherer :: gatherer where
  "dup_gatherer =
     \<lparr>g_keyword = ''ab'', sources = [''wikipedia'', ''wikipedia''], g_max_results = 5,
      all_results = [], search_time = 0\<rparr>"

definition failing_net :: "nat \<Rightarrow> attempt" where
  "failing_net = (\<lambda>n. Failed)"

definition three_items_reply :: response where
  "three_items_reply =
     \<lparr>json = Inr (PDict [(''query'',
                PDict [(''search'', PList [PDict [(''title'', PStr ''A'')],
                                            PDict [(''title'', PStr ''B'')],
                                            PDict [(''title'', PStr ''C'')]])])]),
      find_all_article = (\<lambda>n. [])\<rparr>"




definition entry_A :: pydict where
  "entry_A =
     [(''source'', PStr ''wikipedia''), (''title'', PStr ''A''), (''description'', PStr ''''),
      (''url'', PStr ''https://en.wikipedia.org/wiki/A''),
      (''timestamp'', PStr ''2024-01-01T00:00:00'')]"

definition quoted_entry :: pydict where
  "quoted_entry =
     [(''source'', PStr ''github''),
      (''title'', PStr (''say '' @ [dquote] @ ''hi'' @ [dquote])),
      (''description'', PStr ''d''), (''url'', PStr ''http://a''),
      (''timestamp'', PStr ''t'')]"

definition sample_dumps :: "pyval \<Rightarrow> string" where
  "sample_dumps v = ''{}''"

definition sample_round :: "real \<Rightarrow> int \<Rightarrow> real" where
  "sample_round x n = x"

definition sample_loads :: "string \<Rightarrow> exn + pyval" where
  "sample_loads s =
     (if s = ''{}''
      then Inr (report sample_round ''2024-01-01T00:00:01'' [sample_entry] ''ab'' 1 [''github''])
      else Inl JSONDecodeError)"




definition null_description_reply :: response where
  "null_description_reply =
     \<lparr>json = Inr (PDict [(''items'',
                PList [PDict [(''name'', PStr ''one''), (''description'', PNone),
                              (''html_url'', PStr ''http://a'')]])]),
      find_all_article = (\<lambda>n. [])\<rparr>"

definition null_description_world :: world where
  "null_description_world = sample_world\<lparr>net_of := (\<lambda>i n. Responded null_description_reply)\<rparr>"

definition null_description_entry :: pydict where
  "null_description_entry =
     [(''source'', PStr ''github''), (''title'', PStr ''one''), (''description'', PNone),
      (''url'', PStr ''http://a''), (''timestamp'', PStr ''2024-01-01T00:00:00'')]"

section \<open>The deduplication pass\<close>

lemma truthy_py_eq: "py_eq a b \<Longrightarrow> truthy a = truthy b"
  by (cases a; cases b) (auto simp: py_eq_def split: if_splits)

lemma py_eq_PStr: "py_eq v (PStr s) = (v = PStr s)"
  by (cases v) (auto simp: py_eq_def)

lemma py_in_insert: "py_in v (insert u S) = (py_eq u v \<or> py_in v S)"
  by (simp add: py_in_def)

lemma py_in_empty: "\<not> py_in v {}"
  by (simp add: py_in_def)

lemma py_in_key: "py_in v S = (py_key v \<in> py_key ` S)"
  unfolding py_in_def py_eq_def by (metis (no_types) image_iff)

lemma first_seen_Suc:
  "first_seen seen (r # xs) (Suc i) =
     (truthy (url_of (xs ! i)) \<and> \<not> py_in (url_of (xs ! i)) seen \<and>
      \<not> py_eq (url_of r) (url_of (xs ! i)) \<and>
      (\<forall>j<i. \<not> py_eq (url_of (xs ! j)) (url_of (xs ! i))))"
  unfolding first_seen_def by (subst All_less_Suc2) auto

lemma first_seen_Suc_kept:
  "first_seen seen (r # xs) (Suc i) = first_seen (insert (url_of r) seen) xs i"
  by (simp add: first_seen_Suc) (auto simp: first_seen_def py_in_insert)

lemma first_seen_Suc_skip:
  assumes "\<not> truthy (url_of r) \<or> py_in (url_of r) seen"
  shows "first_seen seen (r # xs) (Suc i) = first_seen seen xs i"
proof -
  have "\<not> py_eq (url_of r) v" if "truthy v" "\<not> py_in v seen" for v
    using assms that truthy_py_eq[of "url_of r" v]
    by (auto simp: py_in_def py_eq_def)
  then show ?thesis
    by (simp add: first_seen_Suc) (auto simp: first_seen_def)
qed

lemma upt_0_Suc: "[0..<Suc n] = 0 # map Suc [0..<n]"
  by (simp add: upt_conv_Cons map_Suc_upt del: upt_Suc)

text \<open>
  When no URL makes the membership test raise, the loop appends exactly the entries that
  are the first with their URL, in input order.
\<close>

lemma dedup_loop_first_seen:
  assumes "\<forall>r\<in>set xs. truthy (url_of r) \<longrightarrow> hashable (url_of r)"
  shows "dedup_loop xs acc seen =
           Inr (acc @ map (nth xs) (filter (first_seen seen xs) [0..<length xs]))"
  using assms
proof (induction xs arbitrary: acc seen)
  case Nil
  show ?case by simp
next
  case (Cons r xs)
  have IH: "dedup_loop xs a s = Inr (a @ map (nth xs) (filter (first_seen s xs) [0..<length xs]))" for a s
    using Cons by simp
  have hd0: "first_seen seen (r # xs) 0 = (truthy (url_of r) \<and> \<not> py_in (url_of r) seen)"
    by (simp add: first_seen_def)
  show ?case
  proof (cases "truthy (url_of r) \<and> \<not> py_in (url_of r) seen")
    case True
    then have h: "hashable (url_of r)" using Cons.prems by simp
    from True h show ?thesis
      by (simp add: IH upt_0_Suc filter_map o_def hd0 first_seen_Suc_kept del: upt_Suc)
  next
    case False
    then have skip: "\<not> truthy (url_of r) \<or> py_in (url_of r) seen" by blast
    have "dedup_loop (r # xs) acc seen = dedup_loop xs acc seen"
      using skip Cons.prems by (auto simp: Let_def)
    with False show ?thesis
      by (simp add: IH upt_0_Suc filter_map o_def hd0 first_seen_Suc_skip[OF skip] del: upt_Suc dedup_loop.simps)
  qed
qed

lemma is_str_cases: "is_str v \<Longrightarrow> \<exists>s. v = PStr s"
  by (cases v) auto

lemma first_seen_text:
  assumes "\<forall>r\<in>set xs. is_str (url_of r)" "i < length xs"
  shows "first_seen {} xs i =
           (url_of (xs ! i) \<noteq> PStr '''' \<and> url_of (xs ! i) \<notin> set (map url_of (take i xs)))"
proof -
  obtain s where s: "url_of (xs ! i) = PStr s"
    using assms is_str_cases by (metis nth_mem)
  have "(v \<in> set (map url_of (take i xs))) = (\<exists>j<i. url_of (xs ! j) = v)" for v
  proof -
    have "(v \<in> set (map url_of (take i xs))) =
          (\<exists>j<length (map url_of (take i xs)). map url_of (take i xs) ! j = v)"
      by (rule in_set_conv_nth)
    also have "\<dots> = (\<exists>j<i. url_of (xs ! j) = v)"
      using assms(2) by auto
    finally show ?thesis .
  qed
  then have "(\<forall>j<i. url_of (xs ! j) \<noteq> PStr s) = (PStr s \<notin> set (map url_of (take i xs)))"
    by blast
  then show ?thesis
    by (simp add: first_seen_def s py_in_empty py_eq_PStr)
qed

text \<open>
  C1, as the code has it. For result records whose URL is text, or missing, the
  deduplication pass returns the entries at exactly those positions whose URL is not empty
  and does not occur at an earlier position, in input order: the first occurrence of each
  non-empty URL is kept, later entries with that URL are dropped, and every entry whose URL
  is empty is dropped as well.
\<close>

theorem dedup_first_nonempty_url:
  assumes "\<forall>r\<in>set xs. is_str (url_of r)"
  shows "deduplicate xs =
           Inr (map (nth xs)
                  (filter (\<lambda>i. url_of (xs ! i) \<noteq> PStr '''' \<and>
                               url_of (xs ! i) \<notin> set (map url_of (take i xs)))
                     [0..<length xs]))"
proof -
  have h: "\<forall>r\<in>set xs. truthy (url_of r) \<longrightarrow> hashable (url_of r)"
    using assms is_str_cases by fastforce
  have "filter (first_seen {} xs) [0..<length xs] =
        filter (\<lambda>i. url_of (xs ! i) \<noteq> PStr '''' \<and>
                    url_of (xs ! i) \<notin> set (map url_of (take i xs))) [0..<length xs]"
    by (rule filter_cong) (auto simp: first_seen_text[OF assms])
  then show ?thesis
    by (simp add: deduplicate_def dedup_loop_first_seen[OF h])
qed

theorem dedup_first_nonempty_url_witness:
  "is_str (url_of [(''url'', PStr ''http://a'')]) \<and>
   is_str (url_of [(''url'', PStr ''http://b'')]) \<and>
   is_str (url_of [(''title'', PStr ''no url'')]) \<and>
   deduplicate [[(''url'', PStr ''http://a'')], [(''title'', PStr ''no url'')],
                [(''url'', PStr ''http://b'')], [(''url'', PStr ''http://a'')]]
   = Inr [[(''url'', PStr ''http://a'')], [(''url'', PStr ''http://b'')]]"
  using dedup_first_nonempty_url
    [of "[[(''url'', PStr ''http://a'')], [(''title'', PStr ''no url'')],
          [(''url'', PStr ''http://b'')], [(''url'', PStr ''http://a'')]]"]
  by (simp add: url_of_def dict_get_def)

text \<open>
  C1 as stated fails on its own example: of the four entries only the first comes back,
  both entries with an empty URL are dropped, so the pass returns 1 entry and not 3.
\<close>

theorem dedup_drops_empty_urls:
  "deduplicate [[(''url'', PStr ''http://a'')], [(''url'', PStr ''http://a'')],
                [(''url'', PStr '''')], [(''url'', PStr '''')]]
     = Inr [[(''url'', PStr ''http://a'')]] \<and>
   deduplicate [[(''url'', PStr ''http://a'')], [(''url'', PStr ''http://a'')],
                [(''url'', PStr '''')], [(''url'', PStr '''')]]
     \<noteq> Inr [[(''url'', PStr ''http://a'')], [(''url'', PStr '''')], [(''url'', PStr '''')]]"
  by (simp add: deduplicate_def url_of_def dict_get_def py_in_def py_eq_def)

text \<open>
  The loop keeps its accumulators in step: every kept entry has a URL that is true in a
  condition and hashable, no two kept URLs are equal, and \<open>seen_urls\<close> holds exactly the kept
  URLs. A list with these properties passes through the loop unchanged.
\<close>

lemma dedup_loop_invariant:
  assumes "dedup_loop xs acc seen = Inr ys"
    and "\<forall>r\<in>set acc. truthy (url_of r) \<and> hashable (url_of r)"
    and "distinct (map (\<lambda>r. py_key (url_of r)) acc)"
    and "py_key ` seen = (\<lambda>r. py_key (url_of r)) ` set acc"
  shows "(\<forall>r\<in>set ys. truthy (url_of r) \<and> hashable (url_of r)) \<and>
         distinct (map (\<lambda>r. py_key (url_of r)) ys)"
  using assms
proof (induction xs arbitrary: acc seen)
  case Nil
  then show ?case by simp
next
  case (Cons r xs)
  show ?case
  proof (cases "truthy (url_of r) \<and> \<not> py_in (url_of r) seen")
    case True
    with Cons.prems(1) have h: "hashable (url_of r)"
      and run: "dedup_loop xs (acc @ [r]) (insert (url_of r) seen) = Inr ys"
      by (auto simp: Let_def split: if_splits)
    have fresh: "py_key (url_of r) \<notin> (\<lambda>r. py_key (url_of r)) ` set acc"
      using True Cons.prems(4) by (simp add: py_in_key)
    show ?thesis
    proof (rule Cons.IH[OF run])
      show "\<forall>x\<in>set (acc @ [r]). truthy (url_of x) \<and> hashable (url_of x)"
        using True h Cons.prems(2) by simp
      show "distinct (map (\<lambda>r. py_key (url_of r)) (acc @ [r]))"
        using fresh Cons.prems(3) by simp
      show "py_key ` insert (url_of r) seen = (\<lambda>r. py_key (url_of r)) ` set (acc @ [r])"
        using Cons.prems(4) by auto
    qed
  next
    case False
    with Cons.prems(1) have run: "dedup_loop xs acc seen = Inr ys"
      by (auto simp: Let_def split: if_splits)
    show ?thesis
      by (rule Cons.IH[OF run Cons.prems(2) Cons.prems(3) Cons.prems(4)])
  qed
qed

lemma dedup_loop_fixed:
  assumes "\<forall>r\<in>set ys. truthy (url_of r) \<and> hashable (url_of r)"
    and "distinct (map (\<lambda>r. py_key (url_of r)) ys)"
    and "\<forall>r\<in>set ys. \<not> py_in (url_of r) seen"
  shows "dedup_loop ys acc seen = Inr (acc @ ys)"
  using assms
proof (induction ys arbitrary: acc seen)
  case Nil
  show ?case by simp
next
  case (Cons r ys)
  have "\<forall>x\<in>set ys. \<not> py_in (url_of x) (insert (url_of r) seen)"
    using Cons.prems(2,3) by (simp add: py_in_key image_iff) metis
  then have "dedup_loop ys (acc @ [r]) (insert (url_of r) seen) = Inr ((acc @ [r]) @ ys)"
    using Cons.prems by (intro Cons.IH) auto
  then show ?case
    using Cons.prems by (simp add: Let_def)
qed

lemma deduplicate_output:
  assumes "deduplicate xs = Inr ys"
  shows "(\<forall>r\<in>set ys. truthy (url_of r) \<and> hashable (url_of r)) \<and>
         distinct (map (\<lambda>r. py_key (url_of r)) ys)"
  using assms dedup_loop_invariant[of xs "[]" "{}" ys] by (simp add: deduplicate_def)

lemma deduplicate_idem:
  assumes "deduplicate xs = Inr ys"
  shows "deduplicate ys = Inr ys"
  using deduplicate_output[OF assms] dedup_loop_fixed[of ys "{}" "[]"]
  by (simp add: deduplicate_def py_in_def)

lemma distinct_key_urls:
  assumes "distinct (map (\<lambda>r. py_key (url_of r)) ys)"
  shows "distinct (map url_of ys)"
  using assms by (auto simp: distinct_map inj_on_def)

lemma search_deduplicated:
  assumes "search w g = (Inr ys, g')"
  shows "\<exists>buffer. deduplicate buffer = Inr ys \<and> all_results g' = ys"
  using assms by (auto simp: search_def Let_def split: sum.splits)

lemma safe_request_first_ok:
  "net 0 = Responded r \<Longrightarrow> safe_request net = (Inr (Some r), [HttpGet])"
  by (simp add: safe_request_def REQUEST_RETRIES_def upt_rec)

lemma sample_search:
  "search sample_world sample_gatherer =
     (Inr [sample_entry], sample_gatherer\<lparr>all_results := [sample_entry], search_time := 1\<rparr>)"
  by (simp add: search_def submitted_def get_searcher_def searchers_def run_futures_def
      github_search_def finish_search_def try_items_def github_items_def fetch_def
      safe_request_first_ok ebind_def github_entry_def github_init_def base_init_def
      MAX_RESULTS_LIMIT_def slice_to_def deduplicate_def url_of_def dict_get_def py_in_def
      py_eq_def Let_def sample_world_def sample_gatherer_def sample_env_def
      sample_github_reply_def sample_entry_def)

text \<open>
  C2. Whenever \<^verbatim>\<open>search\<close> returns (the deduplication pass raised nothing), the returned
  list, which is also the new \<^verbatim>\<open>self.all_results\<close>, has pairwise different URLs, none of
  them empty; so no two entries share a non-empty URL. Deduplication is idempotent: a list
  the pass has returned is returned unchanged when the pass is applied to it again.
\<close>

theorem search_no_duplicate_urls:
  "(search w g = (Inr ys, g') \<longrightarrow>
      distinct (map url_of ys) \<and> (\<forall>r\<in>set ys. truthy (url_of r)) \<and> all_results g' = ys) \<and>
   (deduplicate xs = Inr zs \<longrightarrow> deduplicate zs = Inr zs)"
proof (intro conjI impI)
  assume s: "search w g = (Inr ys, g')"
  then obtain buffer where b: "deduplicate buffer = Inr ys" and a: "all_results g' = ys"
    using search_deduplicated by blast
  show "distinct (map url_of ys)"
    using deduplicate_output[OF b] distinct_key_urls by blast
  show "\<forall>r\<in>set ys. truthy (url_of r)"
    using deduplicate_output[OF b] by blast
  show "all_results g' = ys" by (rule a)
next
  assume "deduplicate xs = Inr zs"
  then show "deduplicate zs = Inr zs" by (rule deduplicate_idem)
qed

theorem search_no_duplicate_urls_witness:
  "search sample_world sample_gatherer =
     (Inr [sample_entry], sample_gatherer\<lparr>all_results := [sample_entry], search_time := 1\<rparr>) \<and>
   distinct (map url_of [sample_entry]) \<and>
   truthy (url_of sample_entry) \<and>
   deduplicate [sample_entry, sample_entry, quoted_entry] = Inr [sample_entry] \<and>
   deduplicate [sample_entry] = Inr [sample_entry]"
proof -
  have d: "deduplicate [sample_entry, sample_entry, quoted_entry] = Inr [sample_entry]"
    by (simp add: deduplicate_def url_of_def dict_get_def py_in_def py_eq_def sample_entry_def
        quoted_entry_def)
  show ?thesis
    using search_no_duplicate_urls [of sample_world sample_gatherer "[sample_entry]"
        "sample_gatherer\<lparr>all_results := [sample_entry], search_time := 1\<rparr>"
        "[sample_entry, sample_entry, quoted_entry]" "[sample_entry]"]
      sample_search d
    by simp
qed

section \<open>The request loop\<close>

lemma request_loop_gets:
  "count_list (snd (request_loop ns net trace)) HttpGet \<le> count_list trace HttpGet + length ns"
proof (induction ns arbitrary: trace)
  case Nil
  show ?case by simp
next
  case (Cons n ns)
  have "count_list (snd (request_loop ns net (trace @ [HttpGet, Sleep 1]))) HttpGet
          \<le> count_list (trace @ [HttpGet, Sleep 1]) HttpGet + length ns"
    by (rule Cons.IH)
  then show ?case
    by (auto split: attempt.splits)
qed

text \<open>
  Whatever the network does, \<^verbatim>\<open>_safe_request\<close> sends at most two GETs.
\<close>

lemma safe_request_at_most_two_gets:
  "count_list (snd (safe_request net)) HttpGet \<le> 2"
  using request_loop_gets[of "[0..<REQUEST_RETRIES]" net "[]"]
  by (simp add: safe_request_def REQUEST_RETRIES_def)

text \<open>
  C3 on a URL whose every request fails: \<^verbatim>\<open>_safe_request\<close> sends a GET, pauses one
  second, sends a second GET and re-raises its failure. It gives up after 2 attempts, one
  of them a retry; the retry count 2 of C3 and of the comment on
  \<^verbatim>\<open>REQUEST_RETRIES\<close> (\<^verbatim>\<open>Number of retries on failure\<close>) calls for 3.
\<close>

theorem safe_request_gives_up_after_two:
  "safe_request failing_net = (Inl RequestException, [HttpGet, Sleep 1, HttpGet]) \<and>
   count_list (snd (safe_request failing_net)) HttpGet = 2"
  by (simp add: safe_request_def failing_net_def REQUEST_RETRIES_def upt_rec)

section \<open>Construction and dispatch\<close>

lemma get_searcher_available:
  "source \<in> set AVAILABLE_SOURCES \<Longrightarrow> \<exists>s. get_searcher g source = Some s"
  by (auto simp: AVAILABLE_SOURCES_def get_searcher_def searchers_def)

lemma submit_loop_sources:
  "set srcs \<subseteq> set AVAILABLE_SOURCES \<Longrightarrow>
   map fst (submit_loop g srcs futures) = map fst futures @ srcs"
proof (induction srcs arbitrary: futures)
  case Nil
  show ?case by simp
next
  case (Cons source srcs)
  then obtain s where "get_searcher g source = Some s"
    using get_searcher_available[of source g] by auto
  with Cons show ?case by simp
qed

lemma gatherer_init_Inr:
  "gatherer_init kw srcs m = Inr g \<Longrightarrow>
   sources g = srcs \<and> set srcs \<subseteq> set AVAILABLE_SOURCES \<and> g_keyword g = kw \<and>
   g_max_results g = m \<and> all_results g = []"
  by (auto simp: gatherer_init_def split: if_splits)

lemma length_run_futures: "length (run_futures w futures) = length futures"
  by (simp add: run_futures_def)

text \<open>
  C4, as the code has it. For a gatherer that was constructed, \<^verbatim>\<open>search\<close> submits one
  searcher invocation for every element of the source list, in list order, repeated
  identifiers included; the number of invocations is the length of the list, which is the
  number of distinct identifiers when the list has no repetition.
\<close>

theorem one_invocation_per_list_entry:
  assumes "gatherer_init kw srcs m = Inr g"
  shows "map fst (submitted g) = srcs \<and>
         length (run_futures w (submitted g)) = length srcs \<and>
         (distinct srcs \<longrightarrow> length (run_futures w (submitted g)) = card (set srcs))"
proof -
  have m: "map fst (submitted g) = srcs"
    using gatherer_init_Inr[OF assms] submit_loop_sources[of srcs g "[]"]
    by (simp add: submitted_def)
  then have l: "length (submitted g) = length srcs"
    by (metis length_map)
  show ?thesis
    using m l by (simp add: length_run_futures distinct_card)
qed

theorem one_invocation_per_list_entry_witness:
  "gatherer_init ''ab'' [''github''] 5 = Inr sample_gatherer \<and>
   map fst (submitted sample_gatherer) = [''github''] \<and>
   length (run_futures sample_world (submitted sample_gatherer)) = 1 \<and>
   distinct [''github'']"
  using one_invocation_per_list_entry [of "''ab''" "[''github'']" 5 sample_gatherer sample_world]
  by (simp add: gatherer_init_def sample_gatherer_def MIN_KEYWORD_LENGTH_def
      MAX_KEYWORD_LENGTH_def AVAILABLE_SOURCES_def)

text \<open>
  C4 as stated fails for a list that names a source twice: the constructor accepts it and
  \<^verbatim>\<open>search\<close> invokes the searcher of that source twice, for one distinct identifier.
\<close>

theorem repeated_source_invoked_twice:
  "gatherer_init ''ab'' [''wikipedia'', ''wikipedia''] 5 = Inr dup_gatherer \<and>
   map fst (submitted dup_gatherer) = [''wikipedia'', ''wikipedia''] \<and>
   length (run_futures sample_world (submitted dup_gatherer)) = 2 \<and>
   card (set [''wikipedia'', ''wikipedia'']) = 1"
  by (simp add: gatherer_init_def dup_gatherer_def MIN_KEYWORD_LENGTH_def
      MAX_KEYWORD_LENGTH_def AVAILABLE_SOURCES_def submitted_def get_searcher_def
      searchers_def run_futures_def)

text \<open>
  C5. The constructor raises \<^verbatim>\<open>ValueError\<close> for a keyword of length 1 or 201, accepts a
  keyword of length 2 or 200 when every source is known, and raises \<^verbatim>\<open>ValueError\<close> when
  some source is unknown. The constructor takes no network and no searcher is created by
  it: a gatherer that could be searched exists only after it has returned normally.
\<close>

theorem gatherer_init_validation:
  "((length kw = 1 \<or> length kw = 201) \<longrightarrow> (\<exists>msg. gatherer_init kw srcs m = Inl (ValueError msg))) \<and>
   ((length kw = 2 \<or> length kw = 200) \<and> set srcs \<subseteq> set AVAILABLE_SOURCES \<longrightarrow>
      gatherer_init kw srcs m =
        Inr \<lparr>g_keyword = kw, sources = srcs, g_max_results = m, all_results = [],
             search_time = 0\<rparr>) \<and>
   (\<not> set srcs \<subseteq> set AVAILABLE_SOURCES \<longrightarrow> (\<exists>msg. gatherer_init kw srcs m = Inl (ValueError msg)))"
  by (auto simp: gatherer_init_def MIN_KEYWORD_LENGTH_def MAX_KEYWORD_LENGTH_def)

theorem gatherer_init_validation_witness:
  "(\<exists>msg. gatherer_init ''a'' [''wikipedia''] 5 = Inl (ValueError msg)) \<and>
   (\<exists>msg. gatherer_init (replicate 201 CHR ''a'') [''wikipedia''] 5 = Inl (ValueError msg)) \<and>
   gatherer_init ''ab'' [''wikipedia''] 5 =
     Inr \<lparr>g_keyword = ''ab'', sources = [''wikipedia''], g_max_results = 5, all_results = [],
          search_time = 0\<rparr> \<and>
   gatherer_init (replicate 200 CHR ''a'') [''wikipedia''] 5 =
     Inr \<lparr>g_keyword = replicate 200 CHR ''a'', sources = [''wikipedia''], g_max_results = 5,
          all_results = [], search_time = 0\<rparr> \<and>
   (\<exists>msg. gatherer_init ''ab'' [''reddit''] 5 = Inl (ValueError msg))"
  using gatherer_init_validation [of "''a''" "[''wikipedia'']" 5]
    gatherer_init_validation [of "replicate 201 CHR ''a''" "[''wikipedia'']" 5]
    gatherer_init_validation [of "''ab''" "[''wikipedia'']" 5]
    gatherer_init_validation [of "replicate 200 CHR ''a''" "[''wikipedia'']" 5]
    gatherer_init_validation [of "''ab''" "[''reddit'']" 5]
  by (simp add: AVAILABLE_SOURCES_def)

section \<open>What a searcher returns\<close>

lemma replace_str_Nil [simp]: "replace_str old new [] = (if old = [] then new else [])"
  by (subst replace_str.simps) simp

lemma fst_finish_search:
  "fst (finish_search body s) = slice_to (snd body) (max_results s)"
  by (simp add: finish_search_def Let_def)

lemma finish_search_eq:
  "finish_search body s = (slice_to (snd body) (max_results s), s\<lparr>results := snd body\<rparr>, fst body)"
  by (simp add: finish_search_def Let_def)

lemma length_slice_to: "0 \<le> k \<Longrightarrow> length (slice_to xs k) \<le> nat k"
  by (simp add: slice_to_def)

lemma slice_to_zero: "slice_to xs 0 = []"
  by (simp add: slice_to_def)


lemma adapter_init_fields:
  "max_results (adapter_init a kw m) = min m MAX_RESULTS_LIMIT"
  "results (adapter_init a kw m) = []"
  "keyword (adapter_init a kw m) = kw"
  by (cases a; simp add: wikipedia_init_def github_init_def stackoverflow_init_def
        hackernews_init_def googlenews_init_def base_init_def)+

text \<open>
  Every \<^verbatim>\<open>search\<close> method returns \<^verbatim>\<open>self.results[:self.max_results]\<close> of the results it
  has accumulated and leaves the cap as it was.
\<close>

lemma adapter_search_returns:
  "\<exists>body. adapter_search a ev net s =
            (slice_to (snd body) (max_results s), s\<lparr>results := snd body\<rparr>, fst body)"
  by (cases a) (auto simp: wikipedia_search_def github_search_def stackoverflow_search_def
        hackernews_search_def googlenews_search_def finish_search_eq)

lemma wikipedia_three:
  "wikipedia_items (\<lambda>n. Responded three_items_reply) =
     Inr [PDict [(''title'', PStr ''A'')], PDict [(''title'', PStr ''B'')], PDict [(''title'', PStr ''C'')]]"
  by (simp add: wikipedia_items_def fetch_def safe_request_first_ok ebind_def three_items_reply_def dict_get_def)

text \<open>
  C6, as the code has it. For every searcher, keyword and network, and every requested cap
  \<open>m\<close> that is not negative, a freshly constructed searcher returns at most
  \<open>min m 50\<close> entries, hence at most \<open>m\<close>, however many items the provider sent.
\<close>

theorem adapter_result_capped:
  assumes "0 \<le> m"
  shows "int (length (fst (adapter_search a ev net (adapter_init a kw m)))) \<le> min m MAX_RESULTS_LIMIT \<and>
         int (length (fst (adapter_search a ev net (adapter_init a kw m)))) \<le> m"
proof -
  obtain body where
    "fst (adapter_search a ev net (adapter_init a kw m)) =
       slice_to (snd body) (min m MAX_RESULTS_LIMIT)"
    using adapter_search_returns[of a ev net "adapter_init a kw m"]
    by (auto simp: adapter_init_fields)
  moreover have "0 \<le> min m MAX_RESULTS_LIMIT"
    using assms by (simp add: MAX_RESULTS_LIMIT_def)
  ultimately have "length (fst (adapter_search a ev net (adapter_init a kw m)))
                     \<le> nat (min m MAX_RESULTS_LIMIT)"
    using length_slice_to by metis
  then show ?thesis
    using assms by (auto simp: MAX_RESULTS_LIMIT_def)
qed

theorem adapter_result_capped_witness:
  "(0::int) \<le> 2 \<and>
   int (length (fst (adapter_search Wikipedia sample_env (\<lambda>n. Responded three_items_reply)
                       (adapter_init Wikipedia ''ab'' 2)))) \<le> min 2 MAX_RESULTS_LIMIT \<and>
   length (fst (adapter_search Wikipedia sample_env (\<lambda>n. Responded three_items_reply)
                       (adapter_init Wikipedia ''ab'' 2))) = 2"
  using adapter_result_capped [of 2 Wikipedia sample_env "\<lambda>n. Responded three_items_reply" "''ab''"]
  by (simp add: wikipedia_search_def fst_finish_search wikipedia_three try_items_def
      wikipedia_entry_def ebind_def dict_get_def wikipedia_init_def base_init_def
      MAX_RESULTS_LIMIT_def slice_to_def replace_str.simps)

text \<open>
  C6 as stated fails for a negative cap: with \<open>m = -1\<close> and three items in the reply the
  Wikipedia searcher returns 2 entries, more than \<open>min (-1) 50\<close>.
\<close>

theorem negative_cap_not_a_bound:
  "length (fst (wikipedia_search sample_env (\<lambda>n. Responded three_items_reply)
                  (wikipedia_init ''ab'' (- 1)))) = 2 \<and>
   \<not> (2 \<le> min (- 1) MAX_RESULTS_LIMIT)"
  by (simp add: wikipedia_search_def fst_finish_search wikipedia_three try_items_def
      wikipedia_entry_def ebind_def dict_get_def wikipedia_init_def base_init_def
      MAX_RESULTS_LIMIT_def slice_to_def replace_str.simps)






















lemma wikipedia_three_search:
  "wikipedia_search sample_env (\<lambda>n. Responded three_items_reply) (wikipedia_init ''ab'' (- 1)) =
     ([entry_A, entry_A[1 := (''title'', PStr ''B''), 3 := (''url'', PStr ''https://en.wikipedia.org/wiki/B'')]],
      (wikipedia_init ''ab'' (- 1))
        \<lparr>results := [entry_A,
            entry_A[1 := (''title'', PStr ''B''), 3 := (''url'', PStr ''https://en.wikipedia.org/wiki/B'')],
            entry_A[1 := (''title'', PStr ''C''), 3 := (''url'', PStr ''https://en.wikipedia.org/wiki/C'')]]\<rparr>,
      None)"
  by (simp add: wikipedia_search_def finish_search_eq wikipedia_three try_items_def
      wikipedia_entry_def ebind_def dict_get_def wikipedia_init_def base_init_def
      MAX_RESULTS_LIMIT_def slice_to_def entry_A_def sample_env_def replace_str.simps)

text \<open>
  C10. Whether the gatherer's constructor accepts its arguments does not depend on
  \<^verbatim>\<open>max_results\<close>, which it stores as given; a searcher's constructor stores
  \<open>min m 50\<close>, which is 50 for a value above 50 and the value itself when it is negative.
  With the cap 0 every searcher returns the empty list; with a negative cap \<open>m\<close> it returns
  its accumulated results without the last \<open>-m\<close> of them.
\<close>

theorem max_results_never_validated:
  "((\<exists>g. gatherer_init kw srcs m = Inr g) = (\<exists>g. gatherer_init kw srcs m' = Inr g)) \<and>
   (gatherer_init kw srcs m = Inr g \<longrightarrow> g_max_results g = m) \<and>
   max_results (adapter_init a kw m) = min m MAX_RESULTS_LIMIT \<and>
   (MAX_RESULTS_LIMIT < m \<longrightarrow> max_results (adapter_init a kw m) = 50) \<and>
   fst (adapter_search a ev net (adapter_init a kw 0)) = [] \<and>
   (m < 0 \<longrightarrow>
      max_results (adapter_init a kw m) = m \<and>
      fst (adapter_search a ev net (adapter_init a kw m)) =
        take (length (results (fst (snd (adapter_search a ev net (adapter_init a kw m))))) - nat (- m))
          (results (fst (snd (adapter_search a ev net (adapter_init a kw m))))))"
proof (intro conjI impI)
  show "(\<exists>g. gatherer_init kw srcs m = Inr g) = (\<exists>g. gatherer_init kw srcs m' = Inr g)"
    by (simp add: gatherer_init_def)
  show "g_max_results g = m" if "gatherer_init kw srcs m = Inr g"
    using gatherer_init_Inr[OF that] by simp
  show "max_results (adapter_init a kw m) = min m MAX_RESULTS_LIMIT"
    by (rule adapter_init_fields)
  show "max_results (adapter_init a kw m) = 50" if "MAX_RESULTS_LIMIT < m"
    using that by (simp add: adapter_init_fields MAX_RESULTS_LIMIT_def)
  show "fst (adapter_search a ev net (adapter_init a kw 0)) = []"
    using adapter_search_returns[of a ev net "adapter_init a kw 0"]
    by (auto simp: adapter_init_fields MAX_RESULTS_LIMIT_def slice_to_zero)
  show "max_results (adapter_init a kw m) = m" if "m < 0"
    using that by (simp add: adapter_init_fields MAX_RESULTS_LIMIT_def)
  show "fst (adapter_search a ev net (adapter_init a kw m)) =
        take (length (results (fst (snd (adapter_search a ev net (adapter_init a kw m))))) - nat (- m))
          (results (fst (snd (adapter_search a ev net (adapter_init a kw m)))))" if "m < 0"
    using that adapter_search_returns[of a ev net "adapter_init a kw m"]
    by (auto simp: adapter_init_fields MAX_RESULTS_LIMIT_def slice_to_def)
qed

theorem max_results_never_validated_witness:
  "gatherer_init ''ab'' [''github''] (- 7) = Inr (sample_gatherer\<lparr>g_max_results := - 7\<rparr>) \<and>
   g_max_results (sample_gatherer\<lparr>g_max_results := - 7\<rparr>) = - 7 \<and>
   MAX_RESULTS_LIMIT < 60 \<and>
   max_results (adapter_init Wikipedia ''ab'' 60) = 50 \<and>
   (- 1 :: int) < 0 \<and>
   max_results (adapter_init Wikipedia ''ab'' (- 1)) = - 1 \<and>
   length (results (fst (snd (adapter_search Wikipedia sample_env
            (\<lambda>n. Responded three_items_reply) (adapter_init Wikipedia ''ab'' (- 1)))))) = 3 \<and>
   length (fst (adapter_search Wikipedia sample_env (\<lambda>n. Responded three_items_reply)
            (adapter_init Wikipedia ''ab'' (- 1)))) = 2"
  using max_results_never_validated [of "''ab''" "[''github'']" "- 7" 5
      "sample_gatherer\<lparr>g_max_results := - 7\<rparr>" Wikipedia sample_env "\<lambda>n. Responded three_items_reply"]
    max_results_never_validated [of "''ab''" "[''github'']" 60 5
      "sample_gatherer\<lparr>g_max_results := - 7\<rparr>" Wikipedia sample_env "\<lambda>n. Responded three_items_reply"]
    max_results_never_validated [of "''ab''" "[''github'']" "- 1" 5
      "sample_gatherer\<lparr>g_max_results := - 7\<rparr>" Wikipedia sample_env "\<lambda>n. Responded three_items_reply"]
  by (simp add: wikipedia_three_search gatherer_init_def sample_gatherer_def
      MIN_KEYWORD_LENGTH_def MAX_KEYWORD_LENGTH_def AVAILABLE_SOURCES_def MAX_RESULTS_LIMIT_def)

section \<open>The reports\<close>

lemma replace_str_single:
  "replace_str [c] [c, c] s = concat (map (\<lambda>x. if x = c then [c, c] else [x]) s)"
proof (induction s)
  case Nil
  show ?case by simp
next
  case (Cons x s)
  show ?case
    by (subst replace_str.simps) (simp add: Cons)
qed

lemma text_record_fields:
  assumes "text_record r" "k \<in> set schema_keys"
  shows "dict_get r k (PStr '''') = PStr (field_text r k)"
proof -
  have "is_str (dict_get r k (PStr ''''))"
    using assms by (simp add: text_record_def list_all_iff)
  then show ?thesis
    by (cases "dict_get r k (PStr '''')") (simp_all add: field_text_def)
qed

lemma csv_row_text:
  assumes "text_record r"
  shows "csv_row r = Inr (butlast (csv_line r))"
  using text_record_fields[OF assms]
  by (simp add: csv_row_def schema_keys_def ebind_def py_join_def replace_str_single
      csv_line_def quoted_def butlast_append)

lemma csv_line_last: "butlast (csv_line r) @ [CHR 0x0A] = csv_line r"
  by (simp add: csv_line_def butlast_append)

lemma csv_loop_text:
  assumes "\<forall>r\<in>set rs. text_record r"
  shows "csv_loop rs out = Inr (out @ concat (map csv_line rs))"
  using assms
proof (induction rs arbitrary: out)
  case Nil
  show ?case by simp
next
  case (Cons r rs)
  have "csv_row r = Inr (butlast (csv_line r))"
    using Cons.prems by (simp add: csv_row_text)
  moreover have "csv_loop rs (out @ butlast (csv_line r) @ [CHR 0x0A]) =
                   Inr ((out @ butlast (csv_line r) @ [CHR 0x0A]) @ concat (map csv_line rs))"
    using Cons.prems by (intro Cons.IH) simp
  ultimately show ?case
    by (simp add: ebind_def csv_line_last)
qed

text \<open>
  C8, as the code has it. For result records whose schema fields, where present, hold
  text, \<^verbatim>\<open>to_csv\<close> returns the placeholder, without a header row, when there is no result,
  and otherwise the header row followed by one row for each result in input order, with
  the title and the description quoted (embedded double quotes doubled) and the source,
  the URL and the timestamp as they are.
\<close>

theorem to_csv_layout:
  assumes "\<forall>r\<in>set rs. text_record r"
  shows "to_csv rs =
           Inr (if rs = [] then ''No results found''
                else ''source,title,description,url,timestamp'' @ [CHR 0x0A] @
                     concat (map csv_line rs))"
  using csv_loop_text[OF assms, of csv_header]
  by (simp add: to_csv_def csv_header_def)

theorem to_csv_layout_witness:
  "text_record quoted_entry \<and>
   to_csv [quoted_entry] =
     Inr (''source,title,description,url,timestamp'' @ [CHR 0x0A] @
          ''github,'' @ [dquote] @ ''say '' @ [dquote, dquote] @ ''hi'' @ [dquote, dquote, dquote] @
          '','' @ [dquote] @ ''d'' @ [dquote] @ '',http://a,t'' @ [CHR 0x0A]) \<and>
   to_csv [] = Inr ''No results found''"
  using to_csv_layout [of "[quoted_entry]"] to_csv_layout [of "[]"]
  by (simp add: text_record_def schema_keys_def quoted_entry_def dict_get_def csv_line_def
      field_text_def quoted_def dquote_def)

text \<open>
  C8 as stated fails for a result sequence the program itself produces: the GitHub
  searcher stores a description that is \<^verbatim>\<open>null\<close> in the reply as \<^verbatim>\<open>None\<close>, \<^verbatim>\<open>search\<close> returns
  the record, and \<^verbatim>\<open>to_csv\<close> raises \<^verbatim>\<open>AttributeError\<close> on it instead of returning rows.
\<close>

theorem to_csv_raises_on_null_description:
  "fst (search null_description_world sample_gatherer) = Inr [null_description_entry] \<and>
   to_csv [null_description_entry] = Inl AttributeError"
  by (simp add: search_def submitted_def get_searcher_def searchers_def run_futures_def
      github_search_def finish_search_def try_items_def github_items_def fetch_def
      safe_request_first_ok ebind_def github_entry_def github_init_def base_init_def
      MAX_RESULTS_LIMIT_def slice_to_def deduplicate_def url_of_def dict_get_def py_in_def
      py_eq_def Let_def sample_world_def sample_gatherer_def sample_env_def
      null_description_reply_def null_description_world_def null_description_entry_def
      to_csv_def csv_header_def csv_row_def dquote_def replace_str.simps)

text \<open>
  C9. When \<^verbatim>\<open>loads\<close> gives back the object \<^verbatim>\<open>dumps\<close> was applied to, as the JSON library
  does for a dictionary of this kind, parsing the text \<^verbatim>\<open>to_json\<close> returns yields an
  object with a \<^verbatim>\<open>search\<close> block holding the keyword, the generation timestamp, the
  source list, \<^verbatim>\<open>total_results\<close> equal to the length of the \<^verbatim>\<open>results\<close> array and the
  elapsed time as \<^verbatim>\<open>round(search_time, 2)\<close>, and with a \<^verbatim>\<open>results\<close> array holding the
  input records themselves in input order; its objects have exactly the keys of the
  normalized schema whenever the input records have.
\<close>

theorem to_json_round_trip:
  assumes "loads (dumps (report round_nd ts rs kw t srcs)) = Inr (report round_nd ts rs kw t srcs)"
  shows "\<exists>meta res.
           loads (to_json dumps round_nd ts rs kw t srcs) =
             Inr (PDict [(''search'', PDict meta), (''results'', PList res)]) \<and>
           map fst meta =
             [''keyword'', ''timestamp'', ''sources'', ''total_results'', ''search_time_seconds''] \<and>
           dict_get meta ''keyword'' PNone = PStr kw \<and>
           dict_get meta ''timestamp'' PNone = PStr ts \<and>
           dict_get meta ''sources'' PNone = PList (map PStr srcs) \<and>
           dict_get meta ''total_results'' PNone = PInt (int (length res)) \<and>
           dict_get meta ''search_time_seconds'' PNone = PFloat (round_nd t 2) \<and>
           res = map PDict rs \<and>
           ((\<forall>r\<in>set rs. set (map fst r) = set schema_keys) \<longrightarrow>
              (\<forall>v\<in>set res. \<exists>d. v = PDict d \<and> set (map fst d) = set schema_keys))"
  using assms
  by (auto simp: to_json_def report_def dict_get_def)

theorem to_json_round_trip_witness:
  "sample_loads (sample_dumps (report sample_round ''2024-01-01T00:00:01'' [sample_entry] ''ab'' 1
       [''github''])) =
     Inr (report sample_round ''2024-01-01T00:00:01'' [sample_entry] ''ab'' 1 [''github'']) \<and>
   set (map fst sample_entry) = set schema_keys \<and>
   (\<exists>meta res.
      sample_loads (to_json sample_dumps sample_round ''2024-01-01T00:00:01'' [sample_entry] ''ab''
          1 [''github'']) =
        Inr (PDict [(''search'', PDict meta), (''results'', PList res)]) \<and>
      dict_get meta ''total_results'' PNone = PInt 1 \<and>
      dict_get meta ''search_time_seconds'' PNone = PFloat 1 \<and>
      res = [PDict sample_entry])"
proof -
  have h: "sample_loads (sample_dumps (report sample_round ''2024-01-01T00:00:01'' [sample_entry]
             ''ab'' 1 [''github''])) =
           Inr (report sample_round ''2024-01-01T00:00:01'' [sample_entry] ''ab'' 1 [''github''])"
    by (simp add: sample_loads_def sample_dumps_def)
  have k: "set (map fst sample_entry) = set schema_keys"
    by (simp add: sample_entry_def schema_keys_def)
  show ?thesis
    using to_json_round_trip [of sample_loads sample_dumps sample_round "''2024-01-01T00:00:01''"
        "[sample_entry]" "''ab''" 1 "[''github'']"] h k
    by (auto simp: sample_round_def)
qed

end
